theory Spec2Isabelle
  imports
    Complex_Main
    "HOL-Library.Char_ord"
    "HOL-Library.List_Lexorder"
    "HOL-Library.Product_Lexorder"
    "HOL-Library.Multiset"
begin

section \<open>The expense document and the request body\<close>

text \<open>
  The backend of the expense tracker is an Express application over a Mongoose model
  \<^verbatim>\<open>Expense\<close> (\<^verbatim>\<open>models/Expense.js\<close>) with the handlers of
  \<^verbatim>\<open>controllers/expenseController.js\<close> and the error middleware of \<^verbatim>\<open>server.js\<close>.

  The collection is a list of documents in insertion order. Timestamps are milliseconds
  since the epoch (UTC), as a JavaScript \<^verbatim>\<open>Date\<close> holds them. An amount is a finite
  IEEE double, held as the rational number it denotes; sums of amounts are rounded as
  the section on numbers describes. A string is a list of code units below 256, and
  \<open>length\<close> counts them as \<^verbatim>\<open>String.length\<close> does. An \<^verbatim>\<open>ObjectId\<close> is held as its 24
  lower-case hexadecimal digits.
\<close>

type_synonym timestamp = int
type_synonym objectId = string

record expense =
  oid :: objectId
  title :: string
  amount :: rat
  category :: string
  date :: timestamp
  description :: "string option"
  createdAt :: timestamp
  updatedAt :: timestamp

text \<open>
  \<^verbatim>\<open>req.body\<close>: each schema path is absent (\<open>None\<close>) or supplied with a value of the type
  the schema declares for it. Paths that the schema does not declare are dropped by
  Mongoose's strict mode and are therefore not part of the body here.
\<close>

record body =
  b_title :: "string option"
  b_amount :: "rat option"
  b_category :: "string option"
  b_date :: "timestamp option"
  b_description :: "string option"

section \<open>Numbers\<close>

text \<open>
  A JavaScript number and a BSON double are IEEE binary64 values. A finite one is the
  rational it denotes (the two zeros are one value here, as they are in JSON), and a sum
  can also be one of the infinities. Adding two finite values gives their exact sum
  rounded to the nearest double, a tie going to the even significand: 53 significant
  bits, the fixed spacing \<^verbatim>\<open>2^-1074\<close> below \<^verbatim>\<open>2^-1022\<close>, and infinity once the
  result of the rounding reaches \<^verbatim>\<open>2^1024\<close>. Since every amount is finite, no sum is
  \<^verbatim>\<open>NaN\<close>.
\<close>

datatype number = Finite rat | PosInfinity | NegInfinity

function power_of_two :: "int \<Rightarrow> int" where
  "power_of_two e = (if e \<le> 0 then 1 else 2 * power_of_two (e - 1))"
  by pat_completeness auto
termination
  by (relation "measure nat") auto

declare power_of_two.simps [simp del]

definition pow2 :: "int \<Rightarrow> rat" where
  "pow2 e = (if 0 \<le> e then of_int (power_of_two e) else 1 / of_int (power_of_two (- e)))"

text \<open>The number of binary digits of a positive integer.\<close>

function bit_length :: "int \<Rightarrow> int" where
  "bit_length n = (if n \<le> 0 then 0 else 1 + bit_length (n div 2))"
  by pat_completeness auto
termination
  by (relation "measure nat") auto

declare bit_length.simps [simp del]

text \<open>
  The binary exponent of a positive rational \<open>x\<close>: the \<open>e\<close> with \<^verbatim>\<open>2^e <= x < 2^(e+1)\<close>.
  For \<open>x = p/q\<close> it is the difference of the bit lengths of \<open>p\<close> and \<open>q\<close>, or one less.
\<close>

definition binary_exponent :: "rat \<Rightarrow> int" where
  "binary_exponent x =
     (let d = bit_length (fst (quotient_of x)) - bit_length (snd (quotient_of x))
      in if pow2 d \<le> x then d else d - 1)"

definition round_half_even :: "rat \<Rightarrow> int" where
  "round_half_even m =
     (let f = \<lfloor>m\<rfloor>; r = m - of_int f
      in if r < 1 / 2 then f else if 1 / 2 < r then f + 1 else if even f then f else f + 1)"

text \<open>
  Rounding a rational to a double: \<open>q\<close> is the exponent of the last place, \<open>m\<close> the
  rounded significand, at most \<^verbatim>\<open>2^53 = 9007199254740992\<close> in absolute value.
\<close>

definition round_double :: "rat \<Rightarrow> number" where
  "round_double x =
     (if x = 0 then Finite 0
      else
        (let q = max (binary_exponent \<bar>x\<bar> - 52) (- 1074);
             m = round_half_even (x / pow2 q)
         in if 971 < q \<or> q = 971 \<and> 9007199254740992 \<le> \<bar>m\<bar>
            then (if 0 < x then PosInfinity else NegInfinity)
            else Finite (of_int m * pow2 q)))"

text \<open>\<^verbatim>\<open>sum + amount\<close>, the amount being finite.\<close>

fun js_add :: "number \<Rightarrow> rat \<Rightarrow> number" where
  "js_add (Finite a) b = round_double (a + b)"
| "js_add PosInfinity b = PosInfinity"
| "js_add NegInfinity b = NegInfinity"

text \<open>
  Two ways of summing a sequence of doubles: adding them one by one from 0, each
  addition rounded (what \<^verbatim>\<open>reduce\<close> with \<^verbatim>\<open>+\<close> does), and rounding their exact sum once.
\<close>

definition js_sum :: "rat list \<Rightarrow> number" where
  "js_sum ys = foldl js_add (Finite 0) ys"

definition rounded_sum :: "rat list \<Rightarrow> number" where
  "rounded_sum ys = round_double (sum_list ys)"

text \<open>The order of numbers in a sort.\<close>

fun number_rank :: "number \<Rightarrow> nat \<times> rat" where
  "number_rank NegInfinity = (0, 0)"
| "number_rank (Finite r) = (1, r)"
| "number_rank PosInfinity = (2, 0)"

section \<open>The schema: setters, defaults and validators\<close>

text \<open>\<^verbatim>\<open>trim: true\<close> applies \<^verbatim>\<open>String.prototype.trim\<close> when a value is set.\<close>

definition is_space :: "char \<Rightarrow> bool" where
  "is_space c \<longleftrightarrow> of_char c \<in> {9::nat, 10, 11, 12, 13, 32, 160}"

definition trim :: "string \<Rightarrow> string" where
  "trim s = rev (dropWhile is_space (rev (dropWhile is_space s)))"

definition categories :: "string list" where
  "categories = [''Food'', ''Transportation'', ''Entertainment'', ''Shopping'', ''Utilities'',
     ''Housing'', ''Healthcare'', ''Personal'', ''Education'', ''Gifts'', ''Travel'', ''Other'']"

text \<open>
  The validators of one path run in order, \<^verbatim>\<open>required\<close> first, and the first one that
  fails gives the path its single error. \<open>None\<close> is the JavaScript \<^verbatim>\<open>undefined\<close>; the
  \<^verbatim>\<open>required\<close> validator of a string path also refuses the empty string, and the other
  validators accept \<^verbatim>\<open>undefined\<close>.
\<close>

definition validate_title :: "string option \<Rightarrow> string option" where
  "validate_title v =
     (case v of
        None \<Rightarrow> Some ''Please add a title''
      | Some t \<Rightarrow>
          if t = [] then Some ''Please add a title''
          else if length t > 100 then Some ''Title cannot be more than 100 characters''
          else None)"

definition validate_amount :: "rat option \<Rightarrow> string option" where
  "validate_amount v =
     (case v of
        None \<Rightarrow> Some ''Please add an amount''
      | Some a \<Rightarrow> if a < 0 then Some ''Amount must be a positive number'' else None)"

definition validate_category :: "string option \<Rightarrow> string option" where
  "validate_category v =
     (case v of
        None \<Rightarrow> Some ''Please add a category''
      | Some c \<Rightarrow>
          if c = [] then Some ''Please add a category''
          else if c \<notin> set categories
            then Some (''`'' @ c @ ''` is not a valid enum value for path `category`.'')
          else None)"

definition validate_description :: "string option \<Rightarrow> string option" where
  "validate_description v =
     (case v of
        None \<Rightarrow> None
      | Some s \<Rightarrow>
          if length s > 500 then Some ''Description cannot be more than 500 characters''
          else None)"


text \<open>
  Document validation fills \<^verbatim>\<open>error.errors\<close>, an object keyed by path with the error of
  each failing path; here the paths are in the order of the schema's declaration.
\<close>

definition path_error :: "string \<times> string option \<Rightarrow> (string \<times> string) option" where
  "path_error pr = map_option (Pair (fst pr)) (snd pr)"


section \<open>The model's operations on the collection\<close>

datatype mongoose_error =
    ValidationError "(string \<times> string) list"
  | CastError string string
  | MongoServerError string

definition is_hex :: "char \<Rightarrow> bool" where
  "is_hex c \<longleftrightarrow> c \<in> set ''0123456789abcdefABCDEF''"

definition lower_hex :: "char \<Rightarrow> char" where
  "lower_hex c =
     (if c = CHR ''A'' then CHR ''a'' else if c = CHR ''B'' then CHR ''b''
      else if c = CHR ''C'' then CHR ''c'' else if c = CHR ''D'' then CHR ''d''
      else if c = CHR ''E'' then CHR ''e'' else if c = CHR ''F'' then CHR ''f'' else c)"

text \<open>
  Casting a route parameter to \<^verbatim>\<open>ObjectId\<close>: a string of 24 hexadecimal digits is an
  identifier, anything else fails the cast. (Older versions of the driver also read a
  string of 12 characters as the 12 bytes of an identifier; that reading is not part of
  this development.)
\<close>

definition castObjectId :: "string \<Rightarrow> objectId option" where
  "castObjectId s =
     (if length s = 24 \<and> list_all is_hex s then Some (map lower_hex s) else None)"

definition lookup :: "objectId \<Rightarrow> expense list \<Rightarrow> expense option" where
  "lookup i db = find (\<lambda>e. oid e = i) db"

text \<open>\<^verbatim>\<open>Expense.findById(id)\<close>: the cast error is thrown, a missing document is \<^verbatim>\<open>null\<close>.\<close>

definition findById :: "string \<Rightarrow> expense list \<Rightarrow> mongoose_error + expense option" where
  "findById s db =
     (case castObjectId s of
        None \<Rightarrow> Inl (CastError ''_id'' s)
      | Some i \<Rightarrow> Inr (lookup i db))"


section \<open>Responses, handlers and the error middleware\<close>

datatype payload =
    Data expense
  | Listing nat number "expense list"
  | Statistics number "(string \<times> number) list" "(nat \<times> number) list"
  | Message string
  | Messages "string list"
  | MessageOf mongoose_error
  | Empty

text \<open>\<^verbatim>\<open>res.status(code).json({success, ...})\<close>.\<close>

datatype response = Response nat bool payload

text \<open>A handler either responds or hands the error to \<^verbatim>\<open>next\<close>.\<close>

datatype outcome = Responded response | Next mongoose_error

text \<open>
  The error middleware of \<^verbatim>\<open>server.js\<close>: \<^verbatim>\<open>err.statusCode || 500\<close>. No error of
  Mongoose or of the driver carries a \<^verbatim>\<open>statusCode\<close>.
\<close>

definition statusCode :: "mongoose_error \<Rightarrow> nat option" where
  "statusCode err = None"

definition errorHandler :: "mongoose_error \<Rightarrow> response" where
  "errorHandler err =
     Response (case statusCode err of None \<Rightarrow> 500 | Some c \<Rightarrow> if c = 0 then 500 else c)
       False (MessageOf err)"

definition finish :: "outcome \<Rightarrow> response" where
  "finish out = (case out of Responded r \<Rightarrow> r | Next err \<Rightarrow> errorHandler err)"

definition getExpense :: "string \<Rightarrow> expense list \<Rightarrow> outcome" where
  "getExpense s db =
     (case findById s db of
        Inl err \<Rightarrow> Next err
      | Inr None \<Rightarrow> Responded (Response 404 False (Message ''Expense not found''))
      | Inr (Some e) \<Rightarrow> Responded (Response 200 True (Data e)))"


text \<open>
  \<^verbatim>\<open>Expense.findByIdAndUpdate(id, body, {new: true, runValidators: true})\<close>. The filter is
  cast first (a malformed id throws), the setters run on the supplied values,
  \<^verbatim>\<open>timestamps: true\<close> adds \<^verbatim>\<open>updatedAt\<close> with the reading \<open>now\<close> of the clock to the
  \<^verbatim>\<open>$set\<close>, and the update validators check the supplied paths only; no default is
  applied. Then the first document with that id is replaced and returned (\<^verbatim>\<open>new: true\<close>),
  or \<^verbatim>\<open>null\<close> when there is none. The errors of an update are listed here in the order
  of the schema; Mongoose lists them by the keys of the body, which the record \<open>body\<close>
  does not order, and nothing below depends on the order of two messages.
\<close>

definition cast_update :: "body \<Rightarrow> body" where
  "cast_update b =
     b\<lparr> b_title := map_option trim (b_title b),
        b_description := map_option trim (b_description b) \<rparr>"

definition supplied :: "('a option \<Rightarrow> string option) \<Rightarrow> 'a option \<Rightarrow> string option" where
  "supplied check v = (case v of None \<Rightarrow> None | Some x \<Rightarrow> check (Some x))"

definition validate_update :: "body \<Rightarrow> (string \<times> string) list" where
  "validate_update b =
     List.map_filter path_error
       [(''title'', supplied validate_title (b_title b)),
        (''amount'', supplied validate_amount (b_amount b)),
        (''category'', supplied validate_category (b_category b)),
        (''description'', supplied validate_description (b_description b))]"

definition apply_update :: "timestamp \<Rightarrow> body \<Rightarrow> expense \<Rightarrow> expense" where
  "apply_update now b e =
     e\<lparr> title := (case b_title b of None \<Rightarrow> title e | Some t \<Rightarrow> t),
        amount := (case b_amount b of None \<Rightarrow> amount e | Some a \<Rightarrow> a),
        category := (case b_category b of None \<Rightarrow> category e | Some c \<Rightarrow> c),
        date := (case b_date b of None \<Rightarrow> date e | Some d \<Rightarrow> d),
        description := (case b_description b of None \<Rightarrow> description e | Some s \<Rightarrow> Some s),
        updatedAt := now \<rparr>"

fun replace_first :: "objectId \<Rightarrow> expense \<Rightarrow> expense list \<Rightarrow> expense list" where
  "replace_first i e' [] = []"
| "replace_first i e' (e # es) = (if oid e = i then e' # es else e # replace_first i e' es)"

definition findByIdAndUpdate :: "timestamp \<Rightarrow> string \<Rightarrow> body \<Rightarrow> expense list
    \<Rightarrow> (mongoose_error + expense option) \<times> expense list" where
  "findByIdAndUpdate now s b db =
     (case castObjectId s of
        None \<Rightarrow> (Inl (CastError ''_id'' s), db)
      | Some i \<Rightarrow>
          (let u = cast_update b in
           if validate_update u \<noteq> [] then (Inl (ValidationError (validate_update u)), db)
           else
             (case lookup i db of
                None \<Rightarrow> (Inr None, db)
              | Some e \<Rightarrow>
                  (let e' = apply_update now u e
                   in (Inr (Some e'), replace_first i e' db)))))"

definition updateExpense :: "timestamp \<Rightarrow> string \<Rightarrow> body \<Rightarrow> expense list
    \<Rightarrow> outcome \<times> expense list" where
  "updateExpense now s b db =
     (case findByIdAndUpdate now s b db of
        (Inr None, db') \<Rightarrow> (Responded (Response 404 False (Message ''Expense not found'')), db')
      | (Inr (Some e), db') \<Rightarrow> (Responded (Response 200 True (Data e)), db')
      | (Inl (ValidationError errors), db') \<Rightarrow>
          (Responded (Response 400 False (Messages (map snd errors))), db')
      | (Inl err, db') \<Rightarrow> (Next err, db'))"

section \<open>Listing: filter and sort\<close>

text \<open>
  \<^verbatim>\<open>req.query\<close> of \<^verbatim>\<open>GET /api/expenses\<close>: each parameter is absent or a string. A string is
  truthy when it is not empty.
\<close>

record query =
  q_category :: "string option"
  q_startDate :: "string option"
  q_endDate :: "string option"
  q_sort :: "string option"

definition truthy :: "string option \<Rightarrow> bool" where
  "truthy v = (case v of None \<Rightarrow> False | Some s \<Rightarrow> s \<noteq> [])"

text \<open>
  \<^verbatim>\<open>new Date(string)\<close> is the platform's parser; it is a parameter \<open>parse\<close> of the
  listing, and what it does not understand is the invalid date.
\<close>

datatype jsdate = Valid timestamp | InvalidDate

record conditions =
  c_category :: "string option"
  c_gte :: "jsdate option"
  c_lte :: "jsdate option"

definition build_query :: "(string \<Rightarrow> jsdate) \<Rightarrow> query \<Rightarrow> conditions" where
  "build_query parse q =
     \<lparr> c_category = (if truthy (q_category q) then q_category q else None),
       c_gte = (if truthy (q_startDate q) \<or> truthy (q_endDate q)
                then (if truthy (q_startDate q) then map_option parse (q_startDate q) else None)
                else None),
       c_lte = (if truthy (q_startDate q) \<or> truthy (q_endDate q)
                then (if truthy (q_endDate q) then map_option parse (q_endDate q) else None)
                else None) \<rparr>"

text \<open>\<^verbatim>\<open>String.prototype.split\<close> at a separator character.\<close>

fun split_at :: "char \<Rightarrow> string \<Rightarrow> string list" where
  "split_at c [] = [[]]"
| "split_at c (x # xs) =
     (if x = c then [] # split_at c xs
      else (case split_at c xs of [] \<Rightarrow> [[x]] | y # ys \<Rightarrow> (x # y) # ys))"

text \<open>
  \<^verbatim>\<open>const [field, order] = sort.split(':')\<close>: a missing second element is \<^verbatim>\<open>undefined\<close>.
  The sort specification is the field with 1 or -1.
\<close>

definition build_sort :: "string option \<Rightarrow> string \<times> int" where
  "build_sort v =
     (if truthy v then
        (case split_at CHR '':'' (the v) of
           [] \<Rightarrow> (''date'', -1)
         | [field] \<Rightarrow> (field, -1)
         | field # order # _ \<Rightarrow> (field, if order = ''asc'' then 1 else -1))
      else (''date'', -1))"

text \<open>
  The values of a document's fields and their order in a sort: null (which a missing
  field counts as) before numbers, before strings, before identifiers, before dates;
  strings by their code units. \<^verbatim>\<open>__v\<close> is Mongoose's version key, 0 on every document.
\<close>

datatype bson = BNull | BNum rat | BStr string | BId objectId | BDate timestamp

definition field_value :: "string \<Rightarrow> expense \<Rightarrow> bson" where
  "field_value f e =
     (if f = ''_id'' then BId (oid e)
      else if f = ''title'' then BStr (title e)
      else if f = ''amount'' then BNum (amount e)
      else if f = ''category'' then BStr (category e)
      else if f = ''date'' then BDate (date e)
      else if f = ''description'' then (case description e of None \<Rightarrow> BNull | Some s \<Rightarrow> BStr s)
      else if f = ''createdAt'' then BDate (createdAt e)
      else if f = ''updatedAt'' then BDate (updatedAt e)
      else if f = ''__v'' then BNum 0
      else BNull)"

fun sort_rank :: "bson \<Rightarrow> nat \<times> rat \<times> string" where
  "sort_rank BNull = (0, 0, [])"
| "sort_rank (BNum r) = (1, r, [])"
| "sort_rank (BStr s) = (2, 0, s)"
| "sort_rank (BId i) = (3, 0, i)"
| "sort_rank (BDate t) = (4, of_int t, [])"

text \<open>
  \<^verbatim>\<open>.sort({[field]: dir})\<close>. The server leaves the order of documents with equal keys
  open; here they keep their order in the collection.
\<close>

definition sort_by :: "('a \<Rightarrow> 'k::linorder) \<Rightarrow> int \<Rightarrow> 'a list \<Rightarrow> 'a list" where
  "sort_by k dir xs = (if dir = 1 then sort_key k xs else rev (sort_key k (rev xs)))"

definition matches :: "conditions \<Rightarrow> expense \<Rightarrow> bool" where
  "matches c e \<longleftrightarrow>
     (case c_category c of None \<Rightarrow> True | Some v \<Rightarrow> category e = v) \<and>
     (case c_gte c of Some (Valid t) \<Rightarrow> t \<le> date e | _ \<Rightarrow> True) \<and>
     (case c_lte c of Some (Valid t) \<Rightarrow> date e \<le> t | _ \<Rightarrow> True)"

text \<open>
  The sort keys that the server takes. A key is a path of field names joined by dots;
  the server refuses a path with an empty name (so also the empty key), with a name that
  starts with a dollar sign, or with a null character. The one key with a dollar sign
  that it takes is \<^verbatim>\<open>$natural\<close>, the order of the collection itself.
\<close>

definition field_name_accepted :: "string \<Rightarrow> bool" where
  "field_name_accepted n = (case n of [] \<Rightarrow> False | c # _ \<Rightarrow> c \<noteq> CHR ''$'')"

definition sort_key_accepted :: "string \<Rightarrow> bool" where
  "sort_key_accepted f \<longleftrightarrow>
     f = ''$natural'' \<or>
     (CHR 0x00 \<notin> set f \<and> list_all field_name_accepted (split_at CHR ''.'' f))"

definition arrange :: "string \<times> int \<Rightarrow> expense list \<Rightarrow> expense list" where
  "arrange so ys =
     (if fst so = ''$natural'' then (if snd so = 1 then ys else rev ys)
      else sort_by (\<lambda>e. sort_rank (field_value (fst so) e)) (snd so) ys)"

text \<open>
  \<^verbatim>\<open>Expense.find(query).sort(sortOptions)\<close>: casting the conditions throws on an invalid
  date before anything is sent; the server then fails the command on a sort key that it
  refuses (the text of its message is not modelled).
\<close>

definition find_sorted :: "conditions \<Rightarrow> string \<times> int \<Rightarrow> expense list
    \<Rightarrow> mongoose_error + expense list" where
  "find_sorted c so db =
     (if c_gte c = Some InvalidDate \<or> c_lte c = Some InvalidDate
      then Inl (CastError ''date'' ''Invalid Date'')
      else if \<not> sort_key_accepted (fst so)
      then Inl (MongoServerError ''Bad sort specification'')
      else Inr (arrange so (filter (matches c) db)))"

definition getExpenses :: "(string \<Rightarrow> jsdate) \<Rightarrow> query \<Rightarrow> expense list \<Rightarrow> outcome" where
  "getExpenses parse q db =
     (let query = build_query parse q;
          sortOptions = build_sort (q_sort q)
      in case find_sorted query sortOptions db of
           Inl err \<Rightarrow> Next err
         | Inr expenses \<Rightarrow>
             (let total = foldl (\<lambda>sum e. js_add sum (amount e)) (Finite 0) expenses
              in Responded (Response 200 True (Listing (length expenses) total expenses))))"

section \<open>Statistics: the aggregation pipelines\<close>

text \<open>
  \<^verbatim>\<open>$group\<close> with \<^verbatim>\<open>$sum\<close>: one output document per key that occurs, holding the sum of
  the amounts of the documents with that key. The server leaves the order of the
  groups open; here it is the order of first occurrence.

  The sum is the server's: its accumulator is a parameter \<open>acc\<close> of the pipelines, given
  the amounts of a group in the order of the collection. (The server adds whole numbers
  exactly and doubles with rounding, and may keep more precision between two additions
  than a double has, so \<open>acc\<close> is not bound here to either of \<open>js_sum\<close> and
  \<open>rounded_sum\<close>.)
\<close>

fun add_to_group :: "'k \<Rightarrow> rat \<Rightarrow> ('k \<times> rat list) list \<Rightarrow> ('k \<times> rat list) list" where
  "add_to_group k v [] = [(k, [v])]"
| "add_to_group k v ((k', vs) # gs) =
     (if k' = k then (k', vs @ [v]) # gs else (k', vs) # add_to_group k v gs)"

definition group_amounts :: "(expense \<Rightarrow> 'k) \<Rightarrow> expense list \<Rightarrow> ('k \<times> rat list) list" where
  "group_amounts key docs = foldl (\<lambda>gs e. add_to_group (key e) (amount e) gs) [] docs"

definition group_sum :: "(rat list \<Rightarrow> number) \<Rightarrow> (expense \<Rightarrow> 'k) \<Rightarrow> expense list
    \<Rightarrow> ('k \<times> number) list" where
  "group_sum acc key docs = map (\<lambda>g. (fst g, acc (snd g))) (group_amounts key docs)"

text \<open>\<^verbatim>\<open>getTotalByCategory\<close>: group by category, then \<^verbatim>\<open>$sort: {total: -1}\<close>.\<close>

definition getTotalByCategory :: "(rat list \<Rightarrow> number) \<Rightarrow> expense list
    \<Rightarrow> (string \<times> number) list" where
  "getTotalByCategory acc db =
     sort_by (\<lambda>g. number_rank (snd g)) (-1) (group_sum acc category db)"

text \<open>
  The calendar of the platform, proleptic Gregorian in UTC: the day number of a civil
  date counted from 1970-01-01, and the civil month of a day number.
\<close>

definition days_from_civil :: "int \<Rightarrow> int \<Rightarrow> int \<Rightarrow> int" where
  "days_from_civil y m d =
     (let y' = (if m \<le> 2 then y - 1 else y);
          era = y' div 400;
          yoe = y' - era * 400;
          doy = (153 * (if m > 2 then m - 3 else m + 9) + 2) div 5 + d - 1;
          doe = yoe * 365 + yoe div 4 - yoe div 100 + doy
      in era * 146097 + doe - 719468)"

definition month_from_days :: "int \<Rightarrow> nat" where
  "month_from_days z =
     (let z' = z + 719468;
          era = z' div 146097;
          doe = z' - era * 146097;
          yoe = (doe - doe div 1460 + doe div 36524 - doe div 146096) div 365;
          doy = doe - (365 * yoe + yoe div 4 - yoe div 100);
          mp = (5 * doy + 2) div 153
      in nat (if mp < 10 then mp + 3 else mp - 9))"

definition ms_per_day :: int where
  "ms_per_day = 86400000"

text \<open>
  \<^verbatim>\<open>new Date(`${year}-MM-DD`)\<close>: for a year of four digits the string is an ISO date
  without a time, which is midnight UTC of that day. (A year of fewer or more digits
  does not give an ISO date; \<open>date_only\<close> is meant for the years 1000 to 9999 only, and
  the one caller passes the current year.)
\<close>

definition date_only :: "int \<Rightarrow> int \<Rightarrow> int \<Rightarrow> timestamp" where
  "date_only y m d = days_from_civil y m d * ms_per_day"

text \<open>\<^verbatim>\<open>{ $month: '$date' }\<close>: the month of the date in UTC, 1 to 12.\<close>

definition month_of :: "timestamp \<Rightarrow> nat" where
  "month_of t = month_from_days (t div ms_per_day)"

text \<open>
  \<^verbatim>\<open>getMonthlyExpenses(year)\<close>: \<^verbatim>\<open>$match\<close> on the two dates, group by month, then
  \<^verbatim>\<open>$sort: {_id: 1}\<close>.
\<close>

definition getMonthlyExpenses :: "(rat list \<Rightarrow> number) \<Rightarrow> int \<Rightarrow> expense list
    \<Rightarrow> (nat \<times> number) list" where
  "getMonthlyExpenses acc year db =
     sort_by fst 1
       (group_sum acc (\<lambda>e. month_of (date e))
          (filter (\<lambda>e. date_only year 1 1 \<le> date e \<and> date e \<le> date_only year 12 31) db))"

text \<open>
  \<^verbatim>\<open>getExpenseStats\<close>: the grand total is the \<^verbatim>\<open>$group\<close> with \<^verbatim>\<open>_id: null\<close>, which gives no
  document on an empty collection; \<open>currentYear\<close> is \<^verbatim>\<open>new Date().getFullYear()\<close>.
\<close>

definition aggregate_total :: "(rat list \<Rightarrow> number) \<Rightarrow> expense list \<Rightarrow> number list" where
  "aggregate_total acc db = (if db = [] then [] else [acc (map amount db)])"

definition getExpenseStats :: "(rat list \<Rightarrow> number) \<Rightarrow> int \<Rightarrow> expense list \<Rightarrow> outcome" where
  "getExpenseStats acc currentYear db =
     (let categoryStats = getTotalByCategory acc db;
          monthlyStats = getMonthlyExpenses acc currentYear db;
          total = aggregate_total acc db
      in Responded (Response 200 True
           (Statistics (case total of [] \<Rightarrow> Finite 0 | t # _ \<Rightarrow> t)
              categoryStats monthlyStats)))"

section \<open>The constraints of the data model\<close>






text \<open>
  What the data model asks of a partial draft: each field that is supplied satisfies
  its constraint.
\<close>

definition supplied_fields_valid :: "body \<Rightarrow> bool" where
  "supplied_fields_valid b \<longleftrightarrow>
     (case b_title b of None \<Rightarrow> True | Some t \<Rightarrow> trim t \<noteq> [] \<and> length (trim t) \<le> 100) \<and>
     (case b_amount b of None \<Rightarrow> True | Some a \<Rightarrow> 0 \<le> a) \<and>
     (case b_category b of None \<Rightarrow> True | Some c \<Rightarrow> c \<in> set categories) \<and>
     (case b_description b of None \<Rightarrow> True | Some d \<Rightarrow> length (trim d) \<le> 500)"

text \<open>
  What a listing request asks of a record: each parameter that is supplied (present and
  not empty) constrains it, the others do not.
\<close>

definition satisfies_filter :: "(string \<Rightarrow> jsdate) \<Rightarrow> query \<Rightarrow> expense \<Rightarrow> bool" where
  "satisfies_filter parse q e \<longleftrightarrow>
     (case q_category q of None \<Rightarrow> True | Some c \<Rightarrow> c = [] \<or> category e = c) \<and>
     (case q_startDate q of None \<Rightarrow> True
      | Some s \<Rightarrow> s = [] \<or> (case parse s of Valid t \<Rightarrow> t \<le> date e | InvalidDate \<Rightarrow> False)) \<and>
     (case q_endDate q of None \<Rightarrow> True
      | Some s \<Rightarrow> s = [] \<or> (case parse s of Valid t \<Rightarrow> date e \<le> t | InvalidDate \<Rightarrow> False))"

text \<open>
  What an order on a field asks of two records, the first coming no later than the
  second in ascending order: strings by their code units, numbers and dates by size,
  identifiers by their bytes, and a missing description before every description.
  A field that no record has orders nothing.
\<close>

definition ordered_on :: "string \<Rightarrow> expense \<Rightarrow> expense \<Rightarrow> bool" where
  "ordered_on f a b \<longleftrightarrow>
     (if f = ''_id'' then oid a \<le> oid b
      else if f = ''title'' then title a \<le> title b
      else if f = ''amount'' then amount a \<le> amount b
      else if f = ''category'' then category a \<le> category b
      else if f = ''date'' then date a \<le> date b
      else if f = ''description'' then
        (case description a of None \<Rightarrow> True
         | Some x \<Rightarrow> (case description b of None \<Rightarrow> False | Some y \<Rightarrow> x \<le> y))
      else if f = ''createdAt'' then createdAt a \<le> createdAt b
      else if f = ''updatedAt'' then updatedAt a \<le> updatedAt b
      else True)"

text \<open>
  A sequence of amounts that adds up without rounding: starting from \<open>s\<close>, each partial
  sum is a double.
\<close>

fun exact_from :: "rat \<Rightarrow> rat list \<Rightarrow> bool" where
  "exact_from s [] = True"
| "exact_from s (y # ys) = (round_double (s + y) = Finite (s + y) \<and> exact_from (s + y) ys)"

definition sums_exactly :: "rat list \<Rightarrow> bool" where
  "sums_exactly ys = exact_from 0 ys"

section \<open>Sample data\<close>

text \<open>
  Documents, drafts and a parser that knows two ISO dates, for the concrete instances
  below. The amounts of \<open>coffee\<close>, \<open>ticket\<close> and \<open>snack\<close> are the doubles that \<^verbatim>\<open>0.1\<close>,
  \<^verbatim>\<open>0.2\<close> and \<^verbatim>\<open>0.6\<close> denote.
\<close>

definition lunch :: expense where
  "lunch = \<lparr>oid = ''000000000000000000000001'', title = ''Lunch'', amount = 100,
     category = ''Food'', date = 1704067200000, description = None,
     createdAt = 1704067200000, updatedAt = 1704067200000\<rparr>"

definition bus :: expense where
  "bus = \<lparr>oid = ''000000000000000000000002'', title = ''Bus'', amount = 50,
     category = ''Transportation'', date = 1706745600000, description = None,
     createdAt = 1706745600000, updatedAt = 1706745600000\<rparr>"

definition iso_sample :: "string \<Rightarrow> jsdate" where
  "iso_sample s =
     (if s = ''2024-01-01'' then Valid 1704067200000
      else if s = ''2024-01-31'' then Valid 1706659200000
      else InvalidDate)"



definition rename :: body where
  "rename = \<lparr>b_title = Some ''Brunch'', b_amount = None, b_category = None, b_date = None,
     b_description = None\<rparr>"

definition negative_amount :: body where
  "negative_amount = \<lparr>b_title = None, b_amount = Some (-1), b_category = None, b_date = None,
     b_description = None\<rparr>"

definition coffee :: expense where
  "coffee = \<lparr>oid = ''000000000000000000000004'', title = ''Coffee'',
     amount = 3602879701896397 / 36028797018963968,
     category = ''Food'', date = 1704067200000, description = None,
     createdAt = 1704067200000, updatedAt = 1704067200000\<rparr>"

definition ticket :: expense where
  "ticket = \<lparr>oid = ''000000000000000000000005'', title = ''Ticket'',
     amount = 3602879701896397 / 18014398509481984,
     category = ''Transportation'', date = 1704067200000, description = None,
     createdAt = 1704067200000, updatedAt = 1704067200000\<rparr>"

definition snack :: expense where
  "snack = \<lparr>oid = ''000000000000000000000006'', title = ''Snack'',
     amount = 5404319552844595 / 9007199254740992,
     category = ''Food'', date = 1704067200000, description = None,
     createdAt = 1704067200000, updatedAt = 1704067200000\<rparr>"

definition groceries :: expense where
  "groceries = \<lparr>oid = ''000000000000000000000003'', title = ''Groceries'', amount = 25,
     category = ''Food'', date = 1735646400000, description = None,
     createdAt = 1735646400000, updatedAt = 1735646400000\<rparr>"

section \<open>Auxiliary facts\<close>

lemma foldl_amount:
  "foldl (\<lambda>sum e. js_add sum (amount e)) a xs = foldl js_add a (map amount xs)"
  by (induction xs arbitrary: a) simp_all

lemma exact_from_sum: "exact_from s ys \<Longrightarrow> foldl js_add (Finite s) ys = Finite (s + sum_list ys)"
  by (induction ys arbitrary: s) (simp_all add: add.assoc)

lemma sums_exactly_sum: "sums_exactly ys \<Longrightarrow> js_sum ys = Finite (sum_list ys)"
  using exact_from_sum [of 0 ys] by (simp add: sums_exactly_def js_sum_def)

lemma split_at_no_sep: "c \<notin> set s \<Longrightarrow> split_at c s = [s]"
  by (induction s) auto

lemma split_at_first: "c \<notin> set f \<Longrightarrow> split_at c (f @ c # r) = f # split_at c r"
  by (induction f) auto

lemma sorted_sort_by_asc: "sorted (map k (sort_by k 1 xs))"
  by (simp add: sort_by_def)

lemma sorted_sort_by_desc: "d \<noteq> 1 \<Longrightarrow> sorted (rev (map k (sort_by k d xs)))"
  by (simp add: sort_by_def rev_map)

lemma mset_sort_by: "mset (sort_by k d xs) = mset xs"
  by (simp add: sort_by_def)

lemma set_sort_by: "set (sort_by k d xs) = set xs"
  by (simp add: sort_by_def)

lemma mset_arrange: "mset (arrange so ys) = mset ys"
  by (simp add: arrange_def mset_sort_by)

lemma rank_ordered_on:
  "sort_rank (field_value f a) \<le> sort_rank (field_value f b) \<longleftrightarrow> ordered_on f a b"
proof -
  consider "f = ''_id''" | "f = ''title''" | "f = ''amount''" | "f = ''category''"
    | "f = ''date''" | "f = ''description''" | "f = ''createdAt''" | "f = ''updatedAt''"
    | "f = ''__v''"
    | "f \<noteq> ''_id''" "f \<noteq> ''title''" "f \<noteq> ''amount''" "f \<noteq> ''category''" "f \<noteq> ''date''"
      "f \<noteq> ''description''" "f \<noteq> ''createdAt''" "f \<noteq> ''updatedAt''" "f \<noteq> ''__v''"
    by blast
  then show ?thesis
  proof cases
    case 1
    then show ?thesis by (simp add: field_value_def ordered_on_def less_eq_prod_def)
  next
    case 2
    then show ?thesis by (simp add: field_value_def ordered_on_def less_eq_prod_def)
  next
    case 3
    then show ?thesis by (auto simp: field_value_def ordered_on_def less_eq_prod_def)
  next
    case 4
    then show ?thesis by (simp add: field_value_def ordered_on_def less_eq_prod_def)
  next
    case 5
    then show ?thesis by (auto simp: field_value_def ordered_on_def less_eq_prod_def)
  next
    case 6
    then show ?thesis
      by (simp add: field_value_def ordered_on_def less_eq_prod_def split: option.splits)
  next
    case 7
    then show ?thesis by (auto simp: field_value_def ordered_on_def less_eq_prod_def)
  next
    case 8
    then show ?thesis by (auto simp: field_value_def ordered_on_def less_eq_prod_def)
  next
    case 9
    then show ?thesis by (simp add: field_value_def ordered_on_def)
  next
    case 10
    then show ?thesis by (simp add: field_value_def ordered_on_def)
  qed
qed

lemma arrange_ascending: "snd so = 1 \<Longrightarrow> sorted_wrt (ordered_on (fst so)) (arrange so ys)"
proof -
  assume a: "snd so = 1"
  show ?thesis
  proof (cases "fst so = ''$natural''")
    case True
    then have "ordered_on (fst so) = (\<lambda>a b. True)"
      by (simp add: ordered_on_def fun_eq_iff)
    then show ?thesis by simp
  next
    case False
    have "sorted (map (\<lambda>e. sort_rank (field_value (fst so) e))
        (sort_by (\<lambda>e. sort_rank (field_value (fst so) e)) 1 ys))"
      by (rule sorted_sort_by_asc)
    then have "sorted_wrt (\<lambda>a b. sort_rank (field_value (fst so) a) \<le> sort_rank (field_value (fst so) b))
        (sort_by (\<lambda>e. sort_rank (field_value (fst so) e)) 1 ys)"
      by (simp add: sorted_wrt_map del: sort_rank.simps)
    with False a show ?thesis
      by (simp only: rank_ordered_on arrange_def if_False)
  qed
qed

lemma arrange_descending:
  "snd so \<noteq> 1 \<Longrightarrow> sorted_wrt (\<lambda>a b. ordered_on (fst so) b a) (arrange so ys)"
proof -
  assume a: "snd so \<noteq> 1"
  show ?thesis
  proof (cases "fst so = ''$natural''")
    case True
    then have "(\<lambda>a b. ordered_on (fst so) b a) = (\<lambda>a b. True)"
      by (simp add: ordered_on_def fun_eq_iff)
    then show ?thesis by simp
  next
    case False
    have "sorted (rev (map (\<lambda>e. sort_rank (field_value (fst so) e))
        (sort_by (\<lambda>e. sort_rank (field_value (fst so) e)) (snd so) ys)))"
      using a by (rule sorted_sort_by_desc)
    then have "sorted_wrt (\<lambda>a b. sort_rank (field_value (fst so) b) \<le> sort_rank (field_value (fst so) a))
        (sort_by (\<lambda>e. sort_rank (field_value (fst so) e)) (snd so) ys)"
      by (simp add: sorted_wrt_rev sorted_wrt_map del: sort_rank.simps)
    with False show ?thesis
      by (simp only: rank_ordered_on arrange_def if_False)
  qed
qed

lemma arrange_date_descending: "sorted (rev (map date (arrange (''date'', -1) ys)))"
proof -
  have "sorted_wrt (\<lambda>a b. ordered_on ''date'' b a) (arrange (''date'', -1) ys)"
    using arrange_descending [of "(''date'', -1)" ys] by simp
  then show ?thesis
    by (simp add: ordered_on_def sorted_wrt_rev sorted_wrt_map)
qed

lemma build_query_empty_category:
  "build_query parse (q\<lparr>q_category := Some []\<rparr>) = build_query parse (q\<lparr>q_category := None\<rparr>)"
  by (simp add: build_query_def truthy_def)

lemma build_query_empty_startDate:
  "build_query parse (q\<lparr>q_startDate := Some []\<rparr>) = build_query parse (q\<lparr>q_startDate := None\<rparr>)"
  by (simp add: build_query_def truthy_def)

lemma build_query_empty_endDate:
  "build_query parse (q\<lparr>q_endDate := Some []\<rparr>) = build_query parse (q\<lparr>q_endDate := None\<rparr>)"
  by (simp add: build_query_def truthy_def)

lemma build_query_sort: "build_query parse (q\<lparr>q_sort := v\<rparr>) = build_query parse q"
  by (simp add: build_query_def)

lemma build_sort_empty: "build_sort (Some []) = build_sort None"
  by (simp add: build_sort_def truthy_def)

lemma build_sort_default: "build_sort None = (''date'', -1)"
  by (simp add: build_sort_def truthy_def)

lemma build_sort_pair:
  "CHR '':'' \<notin> set field \<Longrightarrow> CHR '':'' \<notin> set order \<Longrightarrow>
     build_sort (Some (field @ '':'' @ order)) = (field, if order = ''asc'' then 1 else -1)"
  by (simp add: build_sort_def truthy_def split_at_first split_at_no_sep)

lemma build_sort_more:
  "CHR '':'' \<notin> set field \<Longrightarrow> CHR '':'' \<notin> set order \<Longrightarrow>
     build_sort (Some (field @ '':'' @ order @ '':'' @ rest)) =
       (field, if order = ''asc'' then 1 else -1)"
  by (simp add: build_sort_def truthy_def split_at_first)

lemma build_sort_single:
  "CHR '':'' \<notin> set field \<Longrightarrow> field \<noteq> [] \<Longrightarrow> build_sort (Some field) = (field, -1)"
  by (simp add: build_sort_def truthy_def split_at_no_sep)

lemma date_key_accepted: "sort_key_accepted ''date''"
  by (simp add: sort_key_accepted_def field_name_accepted_def)

lemma getExpenses_error_iff:
  "(\<exists>err. getExpenses parse q db = Next err) \<longleftrightarrow>
     c_gte (build_query parse q) = Some InvalidDate \<or>
     c_lte (build_query parse q) = Some InvalidDate \<or>
     \<not> sort_key_accepted (fst (build_sort (q_sort q)))"
  by (simp add: getExpenses_def Let_def find_sorted_def)

lemma getExpenses_listing:
  "getExpenses parse q db = Responded (Response st ok (Listing n t xs)) \<Longrightarrow>
     xs = arrange (build_sort (q_sort q)) (filter (matches (build_query parse q)) db)"
  by (auto simp: getExpenses_def Let_def find_sorted_def split: if_splits)

lemma matches_satisfies:
  "c_gte (build_query parse q) \<noteq> Some InvalidDate \<Longrightarrow>
   c_lte (build_query parse q) \<noteq> Some InvalidDate \<Longrightarrow>
   matches (build_query parse q) = satisfies_filter parse q"
  by (auto simp: matches_def satisfies_filter_def build_query_def truthy_def fun_eq_iff
      split: option.splits jsdate.splits if_splits)

lemma getExpenses_ok:
  "c_gte (build_query parse q) \<noteq> Some InvalidDate \<Longrightarrow>
   c_lte (build_query parse q) \<noteq> Some InvalidDate \<Longrightarrow>
   sort_key_accepted (fst (build_sort (q_sort q))) \<Longrightarrow>
   getExpenses parse q db =
     Responded (Response 200 True
       (Listing (length (arrange (build_sort (q_sort q)) (filter (satisfies_filter parse q) db)))
          (js_sum (map amount
             (arrange (build_sort (q_sort q)) (filter (satisfies_filter parse q) db))))
          (arrange (build_sort (q_sort q)) (filter (satisfies_filter parse q) db))))"
  by (simp add: getExpenses_def Let_def find_sorted_def foldl_amount js_sum_def
      matches_satisfies)

lemma getExpenses_responded:
  "getExpenses parse q db = Responded r \<Longrightarrow>
   c_gte (build_query parse q) \<noteq> Some InvalidDate \<and>
   c_lte (build_query parse q) \<noteq> Some InvalidDate \<and>
   sort_key_accepted (fst (build_sort (q_sort q)))"
  by (auto simp: getExpenses_def Let_def find_sorted_def split: if_splits)

lemma bounds_parse:
  "(case q_startDate q of None \<Rightarrow> True | Some s \<Rightarrow> s = [] \<or> parse s \<noteq> InvalidDate) \<Longrightarrow>
   c_gte (build_query parse q) \<noteq> Some InvalidDate"
  "(case q_endDate q of None \<Rightarrow> True | Some s \<Rightarrow> s = [] \<or> parse s \<noteq> InvalidDate) \<Longrightarrow>
   c_lte (build_query parse q) \<noteq> Some InvalidDate"
  by (auto simp: build_query_def truthy_def split: option.splits)

lemma getExpenses_all:
  "getExpenses parse \<lparr>q_category = Some [], q_startDate = None, q_endDate = None, q_sort = None\<rparr> db
     = Responded (Response 200 True
         (Listing (length (arrange (''date'', -1) db))
            (js_sum (map amount (arrange (''date'', -1) db)))
            (arrange (''date'', -1) db)))"
proof -
  let ?q = "\<lparr>q_category = Some [], q_startDate = None, q_endDate = None, q_sort = None\<rparr>"
  have c: "c_gte (build_query parse ?q) \<noteq> Some InvalidDate"
     "c_lte (build_query parse ?q) \<noteq> Some InvalidDate"
    by (simp_all add: build_query_def truthy_def)
  have f: "filter (satisfies_filter parse ?q) db = db"
    by (simp add: satisfies_filter_def)
  show ?thesis
    using getExpenses_ok [OF c, of db] date_key_accepted
    by (simp add: build_sort_default f)
qed

section \<open>Fetching one expense\<close>

text \<open>
  Claim C1, as the code has it. An id that fails the cast to \<^verbatim>\<open>ObjectId\<close> makes
  \<^verbatim>\<open>findById\<close> throw; \<^verbatim>\<open>getExpense\<close> hands the error to \<^verbatim>\<open>next\<close> and the error middleware
  answers 500 with the error's message. Only a well-formed id that matches no document
  gets 404 with \<^verbatim>\<open>Expense not found\<close>.
\<close>

theorem getExpense_malformed_or_missing:
  "(castObjectId s = None \<longrightarrow>
      finish (getExpense s db) = Response 500 False (MessageOf (CastError ''_id'' s))) \<and>
   (castObjectId s = Some i \<and> lookup i db = None \<longrightarrow>
      finish (getExpense s db) = Response 404 False (Message ''Expense not found''))"
  by (simp add: getExpense_def findById_def finish_def errorHandler_def statusCode_def)

theorem getExpense_malformed_or_missing_witness:
  "castObjectId ''xyz'' = None \<and>
   finish (getExpense ''xyz'' []) = Response 500 False (MessageOf (CastError ''_id'' ''xyz'')) \<and>
   castObjectId ''0123456789abcdef01234567'' = Some ''0123456789abcdef01234567'' \<and>
   lookup ''0123456789abcdef01234567'' [] = None \<and>
   finish (getExpense ''0123456789abcdef01234567'' []) =
     Response 404 False (Message ''Expense not found'')"
proof -
  have a: "castObjectId ''xyz'' = None"
    by (simp add: castObjectId_def)
  have b: "castObjectId ''0123456789abcdef01234567'' = Some ''0123456789abcdef01234567''"
    by (simp add: castObjectId_def is_hex_def lower_hex_def)
  have c: "lookup ''0123456789abcdef01234567'' [] = None"
    by (simp add: lookup_def)
  from a b c
    getExpense_malformed_or_missing [of "''xyz''" "[]"]
    getExpense_malformed_or_missing
      [of "''0123456789abcdef01234567''" "[]" "''0123456789abcdef01234567''"]
  show ?thesis by simp
qed

text \<open>
  The claim as the specification states it (a malformed id is answered like a missing
  one) fails at the id \<^verbatim>\<open>abc\<close> on the empty collection.
\<close>

theorem getExpense_malformed_counterexample:
  "castObjectId ''abc'' = None \<and>
   finish (getExpense ''abc'' []) = Response 500 False (MessageOf (CastError ''_id'' ''abc'')) \<and>
   finish (getExpense ''abc'' []) \<noteq> Response 404 False (Message ''Expense not found'')"
  by (simp add: getExpense_def findById_def finish_def errorHandler_def statusCode_def
      castObjectId_def)

section \<open>Listing\<close>

text \<open>
  Claim C6, as the code has it. Whenever the date bounds that are supplied are dates and
  the sort key is one the server takes, the listing answers 200 with exactly the records
  that satisfy every supplied constraint (as a multiset: all of them, each once, none
  when nothing matches), in descending order of date when no sort is asked for, and
  otherwise in the order of the asked field, ascending for \<^verbatim>\<open>asc\<close> and descending for
  any other direction.
\<close>

theorem findMany_filter_and_order:
  assumes "case q_startDate q of None \<Rightarrow> True | Some s \<Rightarrow> s = [] \<or> parse s \<noteq> InvalidDate"
    and "case q_endDate q of None \<Rightarrow> True | Some s \<Rightarrow> s = [] \<or> parse s \<noteq> InvalidDate"
    and "sort_key_accepted (fst (build_sort (q_sort q)))"
  shows "\<exists>xs. getExpenses parse q db =
            Responded (Response 200 True (Listing (length xs) (js_sum (map amount xs)) xs)) \<and>
          mset xs = mset (filter (satisfies_filter parse q) db) \<and>
          (q_sort q = None \<or> q_sort q = Some [] \<longrightarrow> sorted (rev (map date xs))) \<and>
          (\<forall>field order.
             CHR '':'' \<notin> set field \<and> CHR '':'' \<notin> set order \<and>
             q_sort q = Some (field @ '':'' @ order) \<longrightarrow>
               (order = ''asc'' \<longrightarrow> sorted_wrt (ordered_on field) xs) \<and>
               (order \<noteq> ''asc'' \<longrightarrow> sorted_wrt (\<lambda>a b. ordered_on field b a) xs))"
proof -
  let ?ys = "filter (satisfies_filter parse q) db"
  let ?xs = "arrange (build_sort (q_sort q)) ?ys"
  have ok: "getExpenses parse q db =
      Responded (Response 200 True (Listing (length ?xs) (js_sum (map amount ?xs)) ?xs))"
    using bounds_parse(1) [OF assms(1)] bounds_parse(2) [OF assms(2)] assms(3)
    by (rule getExpenses_ok)
  have m: "mset ?xs = mset ?ys"
    by (rule mset_arrange)
  have d: "sorted (rev (map date ?xs))" if "q_sort q = None \<or> q_sort q = Some []"
    using that arrange_date_descending [of ?ys]
    by (auto simp: build_sort_default build_sort_empty)
  have o: "(order = ''asc'' \<longrightarrow> sorted_wrt (ordered_on field) ?xs) \<and>
      (order \<noteq> ''asc'' \<longrightarrow> sorted_wrt (\<lambda>a b. ordered_on field b a) ?xs)"
    if "CHR '':'' \<notin> set field \<and> CHR '':'' \<notin> set order \<and>
        q_sort q = Some (field @ '':'' @ order)" for field order
  proof -
    from that have f: "CHR '':'' \<notin> set field" and c: "CHR '':'' \<notin> set order"
      and s: "q_sort q = Some (field @ '':'' @ order)"
      by blast+
    have b: "build_sort (q_sort q) = (field, if order = ''asc'' then 1 else -1)"
      unfolding s using f c by (rule build_sort_pair)
    show ?thesis
      using arrange_ascending [of "(field, 1)" ?ys] arrange_descending [of "(field, -1)" ?ys]
      by (simp add: b)
  qed
  show ?thesis
  proof (intro exI [of _ ?xs] conjI allI impI)
    show "getExpenses parse q db =
        Responded (Response 200 True (Listing (length ?xs) (js_sum (map amount ?xs)) ?xs))"
      by (rule ok)
    show "mset ?xs = mset ?ys" by (rule m)
    show "sorted (rev (map date ?xs))" if "q_sort q = None \<or> q_sort q = Some []"
      using that by (rule d)
    show "sorted_wrt (ordered_on field) ?xs"
      if "CHR '':'' \<notin> set field \<and> CHR '':'' \<notin> set order \<and>
          q_sort q = Some (field @ '':'' @ order)" and "order = ''asc''" for field order
      using o [OF that(1)] that(2) by blast
    show "sorted_wrt (\<lambda>a b. ordered_on field b a) ?xs"
      if "CHR '':'' \<notin> set field \<and> CHR '':'' \<notin> set order \<and>
          q_sort q = Some (field @ '':'' @ order)" and "order \<noteq> ''asc''" for field order
      using o [OF that(1)] that(2) by blast
  qed
qed

theorem findMany_filter_and_order_witness:
  "getExpenses iso_sample
      \<lparr>q_category = None, q_startDate = Some ''2024-01-01'', q_endDate = None,
       q_sort = Some ''amount:asc''\<rparr> [lunch, bus, groceries] =
     Responded (Response 200 True (Listing 3 (Finite 175) [groceries, bus, lunch])) \<and>
   mset [groceries, bus, lunch] = mset [lunch, bus, groceries] \<and>
   sorted_wrt (ordered_on ''amount'') [groceries, bus, lunch] \<and>
   amount groceries < amount bus \<and> amount bus < amount lunch"
proof -
  let ?q = "\<lparr>q_category = None, q_startDate = Some ''2024-01-01'', q_endDate = None,
       q_sort = Some ''amount:asc''\<rparr>"
  have a: "case q_startDate ?q of None \<Rightarrow> True | Some s \<Rightarrow> s = [] \<or> iso_sample s \<noteq> InvalidDate"
    by (simp add: iso_sample_def)
  have b: "case q_endDate ?q of None \<Rightarrow> True | Some s \<Rightarrow> s = [] \<or> iso_sample s \<noteq> InvalidDate"
    by simp
  have c: "sort_key_accepted (fst (build_sort (q_sort ?q)))"
    by code_simp
  have f: "filter (satisfies_filter iso_sample ?q) [lunch, bus, groceries] = [lunch, bus, groceries]"
    by (simp add: satisfies_filter_def iso_sample_def lunch_def bus_def groceries_def)
  have e: "getExpenses iso_sample ?q [lunch, bus, groceries] =
     Responded (Response 200 True (Listing 3 (Finite 175) [groceries, bus, lunch]))"
    by code_simp
  from findMany_filter_and_order [OF a b c, of "[lunch, bus, groceries]"]
  obtain xs where x:
    "getExpenses iso_sample ?q [lunch, bus, groceries] =
       Responded (Response 200 True (Listing (length xs) (js_sum (map amount xs)) xs))"
    "mset xs = mset (filter (satisfies_filter iso_sample ?q) [lunch, bus, groceries])"
    "\<forall>field order.
       CHR '':'' \<notin> set field \<and> CHR '':'' \<notin> set order \<and>
       q_sort ?q = Some (field @ '':'' @ order) \<longrightarrow>
         (order = ''asc'' \<longrightarrow> sorted_wrt (ordered_on field) xs) \<and>
         (order \<noteq> ''asc'' \<longrightarrow> sorted_wrt (\<lambda>a b. ordered_on field b a) xs)"
    by blast
  from x(1) e have xs: "xs = [groceries, bus, lunch]"
    by simp
  from x(3) [rule_format, of "''amount''" "''asc''"]
  have "sorted_wrt (ordered_on ''amount'') xs"
    by simp
  with x(2) e show ?thesis
    unfolding xs f by (simp add: lunch_def bus_def groceries_def)
qed

text \<open>
  The claim as the specification states it, for every combination of the parameters,
  fails where the sort key is one the server refuses and where a date bound is not a
  date: both requests are answered by the error middleware.
\<close>

theorem findMany_counterexample:
  "getExpenses iso_sample
     \<lparr>q_category = None, q_startDate = None, q_endDate = None, q_sort = Some '':asc''\<rparr>
     [lunch, bus] = Next (MongoServerError ''Bad sort specification'') \<and>
   finish (getExpenses iso_sample
     \<lparr>q_category = None, q_startDate = None, q_endDate = None, q_sort = Some '':asc''\<rparr>
     [lunch, bus]) = Response 500 False (MessageOf (MongoServerError ''Bad sort specification'')) \<and>
   getExpenses iso_sample
     \<lparr>q_category = None, q_startDate = Some ''yesterday'', q_endDate = None, q_sort = None\<rparr>
     [lunch, bus] = Next (CastError ''date'' ''Invalid Date'')"
  by code_simp

text \<open>
  Claim C8, as the code has it. In every listing response, \<^verbatim>\<open>count\<close> is the number of
  records in \<^verbatim>\<open>data\<close>, the records are exactly those that satisfy the filter of this
  request, and \<^verbatim>\<open>total\<close> is their amounts added one by one from 0 in the order of
  \<^verbatim>\<open>data\<close>, each addition rounded to a double; it is their arithmetic sum whenever no
  addition rounds.
\<close>

theorem listing_count_and_total:
  "getExpenses parse q db = Responded (Response st ok (Listing n t xs)) \<Longrightarrow>
     n = length xs \<and> t = js_sum (map amount xs) \<and>
     mset xs = mset (filter (satisfies_filter parse q) db) \<and>
     (sums_exactly (map amount xs) \<longrightarrow> t = Finite (sum_list (map amount xs)))"
proof -
  assume a: "getExpenses parse q db = Responded (Response st ok (Listing n t xs))"
  from getExpenses_responded [OF a] have
    "c_gte (build_query parse q) \<noteq> Some InvalidDate" "c_lte (build_query parse q) \<noteq> Some InvalidDate"
    "sort_key_accepted (fst (build_sort (q_sort q)))"
    by simp_all
  from getExpenses_ok [OF this, of db] a have
    "n = length xs" "t = js_sum (map amount xs)"
    "mset xs = mset (filter (satisfies_filter parse q) db)"
    by (simp_all add: mset_arrange)
  then show ?thesis
    by (simp add: sums_exactly_sum)
qed

theorem listing_count_and_total_witness:
  "getExpenses iso_sample
     \<lparr>q_category = Some ''Food'', q_startDate = None, q_endDate = None, q_sort = None\<rparr>
     [lunch, bus, groceries] = Responded (Response 200 True (Listing 2 (Finite 125) [groceries, lunch])) \<and>
   (2::nat) = length [groceries, lunch] \<and>
   Finite 125 = js_sum (map amount [groceries, lunch]) \<and>
   sums_exactly (map amount [groceries, lunch]) \<and>
   Finite 125 = Finite (sum_list (map amount [groceries, lunch])) \<and>
   mset [groceries, lunch] = mset (filter (satisfies_filter iso_sample
     \<lparr>q_category = Some ''Food'', q_startDate = None, q_endDate = None, q_sort = None\<rparr>)
     [lunch, bus, groceries])"
proof -
  have a: "getExpenses iso_sample
     \<lparr>q_category = Some ''Food'', q_startDate = None, q_endDate = None, q_sort = None\<rparr>
     [lunch, bus, groceries] = Responded (Response 200 True (Listing 2 (Finite 125) [groceries, lunch]))"
    by code_simp
  have s: "sums_exactly (map amount [groceries, lunch])"
    by code_simp
  from a s listing_count_and_total [OF a] show ?thesis by simp
qed

text \<open>
  The claim as the specification states it, \<^verbatim>\<open>total\<close> being the arithmetic sum, fails on
  two records with the amounts \<^verbatim>\<open>0.1\<close> and \<^verbatim>\<open>0.2\<close>: the total is the double
  \<^verbatim>\<open>0.30000000000000004\<close>, which is neither the sum of the two doubles nor three tenths.
\<close>

theorem listing_total_counterexample:
  "getExpenses iso_sample
     \<lparr>q_category = None, q_startDate = None, q_endDate = None, q_sort = None\<rparr>
     [coffee, ticket] =
     Responded (Response 200 True
       (Listing 2 (Finite (1351079888211149 / 4503599627370496)) [coffee, ticket])) \<and>
   round_double (1 / 10) = Finite (amount coffee) \<and>
   round_double (2 / 10) = Finite (amount ticket) \<and>
   sum_list (map amount [coffee, ticket]) = 10808639105689191 / 36028797018963968 \<and>
   (1351079888211149 / 4503599627370496 :: rat) \<noteq> 10808639105689191 / 36028797018963968 \<and>
   (1351079888211149 / 4503599627370496 :: rat) \<noteq> 3 / 10"
  by code_simp

text \<open>
  Claim C9, as the code has it. For a sort parameter \<^verbatim>\<open>field:order\<close>, with or without
  further tokens after it, the direction is ascending only when \<open>order\<close> is exactly
  \<^verbatim>\<open>asc\<close>; with any other token, and with no colon at all, it is descending, and the
  listing is then in descending order of the field. The controller does not check the
  field token: a token that the server takes as a sort key never turns a listing into an
  error, and a token that the server refuses always does.
\<close>

theorem sort_direction_and_field:
  "CHR '':'' \<notin> set field \<and> CHR '':'' \<notin> set order \<longrightarrow>
     build_sort (Some (field @ '':'' @ order)) = (field, if order = ''asc'' then 1 else -1) \<and>
     build_sort (Some (field @ '':'' @ order @ '':'' @ rest)) =
       (field, if order = ''asc'' then 1 else -1) \<and>
     (field \<noteq> [] \<longrightarrow> build_sort (Some field) = (field, -1)) \<and>
     ((q_sort q = Some (field @ '':'' @ order) \<and> order \<noteq> ''asc'' \<or>
       q_sort q = Some (field @ '':'' @ order @ '':'' @ rest) \<and> order \<noteq> ''asc'' \<or>
       q_sort q = Some field \<and> field \<noteq> []) \<and>
      getExpenses parse q db = Responded (Response st ok (Listing n t xs)) \<longrightarrow>
        sorted_wrt (\<lambda>a b. ordered_on field b a) xs) \<and>
     (q_sort q = Some (field @ '':'' @ order) \<or>
      q_sort q = Some (field @ '':'' @ order @ '':'' @ rest) \<or>
      q_sort q = Some field \<and> field \<noteq> [] \<longrightarrow>
        (sort_key_accepted field \<longrightarrow>
           ((\<exists>err. getExpenses parse q db = Next err) \<longleftrightarrow>
            (\<exists>err. getExpenses parse (q\<lparr>q_sort := None\<rparr>) db = Next err))) \<and>
        (\<not> sort_key_accepted field \<longrightarrow> (\<exists>err. getExpenses parse q db = Next err)))"
proof (intro impI conjI; (elim conjE)?)
  assume f: "CHR '':'' \<notin> set field" and o: "CHR '':'' \<notin> set order"
  note pair = build_sort_pair [OF f o] and more = build_sort_more [OF f o, of rest]
    and single = build_sort_single [OF f]
  show "build_sort (Some (field @ '':'' @ order)) = (field, if order = ''asc'' then 1 else -1)"
    by (rule pair)
  show "build_sort (Some (field @ '':'' @ order @ '':'' @ rest)) =
      (field, if order = ''asc'' then 1 else -1)"
    by (rule more)
  show "build_sort (Some field) = (field, -1)" if "field \<noteq> []"
    using that by (rule single)
  show "sorted_wrt (\<lambda>a b. ordered_on field b a) xs"
    if c: "q_sort q = Some (field @ '':'' @ order) \<and> order \<noteq> ''asc'' \<or>
        q_sort q = Some (field @ '':'' @ order @ '':'' @ rest) \<and> order \<noteq> ''asc'' \<or>
        q_sort q = Some field \<and> field \<noteq> []"
      and l: "getExpenses parse q db = Responded (Response st ok (Listing n t xs))"
  proof -
    from c have "build_sort (q_sort q) = (field, -1)"
      using pair more single by auto
    with getExpenses_listing [OF l]
      arrange_descending [of "(field, -1)" "filter (matches (build_query parse q)) db"]
    show ?thesis by simp
  qed
  assume c: "q_sort q = Some (field @ '':'' @ order) \<or>
      q_sort q = Some (field @ '':'' @ order @ '':'' @ rest) \<or>
      q_sort q = Some field \<and> field \<noteq> []"
  then have k: "fst (build_sort (q_sort q)) = field"
    using pair more single by auto
  show "(\<exists>err. getExpenses parse q db = Next err) \<longleftrightarrow>
      (\<exists>err. getExpenses parse (q\<lparr>q_sort := None\<rparr>) db = Next err)"
    if "sort_key_accepted field"
    using that k date_key_accepted
    by (simp add: getExpenses_error_iff build_query_sort build_sort_default)
  show "\<exists>err. getExpenses parse q db = Next err" if "\<not> sort_key_accepted field"
    using that k by (simp add: getExpenses_error_iff)
qed

theorem sort_direction_and_field_witness:
  "CHR '':'' \<notin> set ''amount'' \<and> CHR '':'' \<notin> set ''ASC'' \<and> ''ASC'' \<noteq> ''asc'' \<and>
   sort_key_accepted ''amount'' \<and>
   getExpenses iso_sample
     \<lparr>q_category = None, q_startDate = None, q_endDate = None, q_sort = Some ''amount:ASC''\<rparr>
     [bus, lunch] = Responded (Response 200 True (Listing 2 (Finite 150) [lunch, bus])) \<and>
   build_sort (Some ''amount:ASC'') = (''amount'', -1) \<and>
   build_sort (Some ''amount:ASC:asc'') = (''amount'', -1) \<and>
   build_sort (Some ''amount'') = (''amount'', -1) \<and>
   sorted_wrt (\<lambda>a b. ordered_on ''amount'' b a) [lunch, bus] \<and>
   amount bus < amount lunch"
proof -
  let ?q = "\<lparr>q_category = None, q_startDate = None, q_endDate = None,
             q_sort = Some ''amount:ASC''\<rparr>"
  have c: "CHR '':'' \<notin> set ''amount'' \<and> CHR '':'' \<notin> set ''ASC''"
    by simp
  have k: "sort_key_accepted ''amount''"
    by code_simp
  have a: "getExpenses iso_sample ?q [bus, lunch] =
      Responded (Response 200 True (Listing 2 (Finite 150) [lunch, bus]))"
    by code_simp
  have s: "q_sort ?q = Some (''amount'' @ '':'' @ ''ASC'')"
    by simp
  note t = sort_direction_and_field
    [of "''amount''" "''ASC''" "''asc''" ?q iso_sample "[bus, lunch]" 200 True 2 "Finite 150"
      "[lunch, bus]", rule_format, OF c]
  from t have "build_sort (Some (''amount'' @ '':'' @ ''ASC'')) = (''amount'', -1)"
    by simp
  moreover from t
  have "build_sort (Some (''amount'' @ '':'' @ ''ASC'' @ '':'' @ ''asc'')) = (''amount'', -1)"
    by simp
  moreover from t have "build_sort (Some ''amount'') = (''amount'', -1)"
    by simp
  moreover from t a s
  have "sorted_wrt (\<lambda>a b. ordered_on ''amount'' b a) [lunch, bus]"
    by blast
  ultimately show ?thesis
    using a k by (simp add: lunch_def bus_def)
qed

text \<open>
  The claim as the specification states it, every field token being taken without
  error, fails at the empty field of \<^verbatim>\<open>sort=:asc\<close> and at \<^verbatim>\<open>sort=$where:desc\<close>: the
  server refuses both keys and the requests are answered 500.
\<close>

theorem sort_field_counterexample:
  "build_sort (Some '':asc'') = ([], 1) \<and>
   finish (getExpenses iso_sample
     \<lparr>q_category = None, q_startDate = None, q_endDate = None, q_sort = Some '':asc''\<rparr>
     [lunch, bus]) = Response 500 False (MessageOf (MongoServerError ''Bad sort specification'')) \<and>
   build_sort (Some ''$where:desc'') = (''$where'', -1) \<and>
   finish (getExpenses iso_sample
     \<lparr>q_category = None, q_startDate = None, q_endDate = None, q_sort = Some ''$where:desc''\<rparr>
     [lunch, bus]) = Response 500 False (MessageOf (MongoServerError ''Bad sort specification'')) \<and>
   finish (getExpenses iso_sample
     \<lparr>q_category = None, q_startDate = None, q_endDate = None, q_sort = None\<rparr>
     [lunch, bus]) = Response 200 True (Listing 2 (Finite 150) [bus, lunch])"
  by code_simp

text \<open>
  Claim C10. A query parameter given with the empty string is treated as the absent
  parameter: the response is the same, and \<^verbatim>\<open>?category=\<close> alone lists the whole
  collection.
\<close>

theorem empty_parameter_as_absent:
  "getExpenses parse (q\<lparr>q_category := Some []\<rparr>) db = getExpenses parse (q\<lparr>q_category := None\<rparr>) db \<and>
   getExpenses parse (q\<lparr>q_startDate := Some []\<rparr>) db = getExpenses parse (q\<lparr>q_startDate := None\<rparr>) db \<and>
   getExpenses parse (q\<lparr>q_endDate := Some []\<rparr>) db = getExpenses parse (q\<lparr>q_endDate := None\<rparr>) db \<and>
   getExpenses parse (q\<lparr>q_sort := Some []\<rparr>) db = getExpenses parse (q\<lparr>q_sort := None\<rparr>) db \<and>
   (\<exists>xs. getExpenses parse
           \<lparr>q_category = Some [], q_startDate = None, q_endDate = None, q_sort = None\<rparr> db
         = Responded (Response 200 True (Listing (length db) (js_sum (map amount xs)) xs)) \<and>
         mset xs = mset db)"
proof (intro conjI)
  show "getExpenses parse (q\<lparr>q_category := Some []\<rparr>) db = getExpenses parse (q\<lparr>q_category := None\<rparr>) db"
    unfolding getExpenses_def build_query_empty_category by simp
  show "getExpenses parse (q\<lparr>q_startDate := Some []\<rparr>) db = getExpenses parse (q\<lparr>q_startDate := None\<rparr>) db"
    unfolding getExpenses_def build_query_empty_startDate by simp
  show "getExpenses parse (q\<lparr>q_endDate := Some []\<rparr>) db = getExpenses parse (q\<lparr>q_endDate := None\<rparr>) db"
    unfolding getExpenses_def build_query_empty_endDate by simp
  show "getExpenses parse (q\<lparr>q_sort := Some []\<rparr>) db = getExpenses parse (q\<lparr>q_sort := None\<rparr>) db"
    unfolding getExpenses_def build_query_sort by (simp add: build_sort_empty)
  have "length (arrange (''date'', -1) db) = length db"
    using mset_arrange [of "(''date'', -1)" db] by (rule mset_eq_length)
  then show "\<exists>xs. getExpenses parse
           \<lparr>q_category = Some [], q_startDate = None, q_endDate = None, q_sort = None\<rparr> db
         = Responded (Response 200 True (Listing (length db) (js_sum (map amount xs)) xs)) \<and>
         mset xs = mset db"
    unfolding getExpenses_all
    by (intro exI [of _ "arrange (''date'', -1) db"]) (simp add: mset_arrange)
qed

theorem empty_parameter_as_absent_witness:
  "getExpenses iso_sample
     \<lparr>q_category = Some [], q_startDate = None, q_endDate = None, q_sort = None\<rparr> [lunch, bus]
   = getExpenses iso_sample
     \<lparr>q_category = None, q_startDate = None, q_endDate = None, q_sort = None\<rparr> [lunch, bus] \<and>
   getExpenses iso_sample
     \<lparr>q_category = Some [], q_startDate = None, q_endDate = None, q_sort = None\<rparr> [lunch, bus]
   = Responded (Response 200 True (Listing 2 (Finite 150) [bus, lunch]))"
proof -
  let ?q = "\<lparr>q_category = None, q_startDate = None, q_endDate = None, q_sort = None\<rparr>"
  have a: "getExpenses iso_sample
     \<lparr>q_category = Some [], q_startDate = None, q_endDate = None, q_sort = None\<rparr> [lunch, bus]
   = Responded (Response 200 True (Listing 2 (Finite 150) [bus, lunch]))"
    by code_simp
  have "getExpenses iso_sample (?q\<lparr>q_category := Some []\<rparr>) [lunch, bus] =
      getExpenses iso_sample (?q\<lparr>q_category := None\<rparr>) [lunch, bus]"
    using empty_parameter_as_absent [of iso_sample ?q "[lunch, bus]"] by (rule conjunct1)
  then have b: "getExpenses iso_sample
     \<lparr>q_category = Some [], q_startDate = None, q_endDate = None, q_sort = None\<rparr> [lunch, bus]
   = getExpenses iso_sample ?q [lunch, bus]"
    by simp
  from b a show ?thesis
    by (intro conjI)
qed









section \<open>Creating an expense\<close>





lemma validate_update_valid:
  "supplied_fields_valid b \<Longrightarrow> validate_update (cast_update b) = []"
  by (auto simp: supplied_fields_valid_def validate_update_def cast_update_def supplied_def
      path_error_def List.map_filter_simps validate_title_def validate_amount_def
      validate_category_def validate_description_def categories_def split: option.splits)

lemma replace_first_split:
  "lookup i db = Some e \<Longrightarrow>
     \<exists>pre post. db = pre @ e # post \<and> replace_first i e' db = pre @ e' # post \<and>
       (\<forall>x \<in> set pre. oid x \<noteq> i)"
proof (induction db)
  case Nil
  then show ?case by (simp add: lookup_def)
next
  case (Cons x db)
  show ?case
  proof (cases "oid x = i")
    case True
    with Cons.prems have "x = e" by (simp add: lookup_def)
    with True have "x # db = [] @ e # db \<and> replace_first i e' (x # db) = [] @ e' # db \<and>
        (\<forall>x \<in> set []. oid x \<noteq> i)"
      by simp
    then show ?thesis by blast
  next
    case False
    with Cons.prems have "lookup i db = Some e" by (simp add: lookup_def)
    from Cons.IH [OF this] obtain pre post where
      "db = pre @ e # post" "replace_first i e' db = pre @ e' # post" "\<forall>x \<in> set pre. oid x \<noteq> i"
      by blast
    with False have "x # db = (x # pre) @ e # post \<and>
        replace_first i e' (x # db) = (x # pre) @ e' # post \<and> (\<forall>y \<in> set (x # pre). oid y \<noteq> i)"
      by simp
    then show ?thesis by blast
  qed
qed


section \<open>Updating an expense\<close>

text \<open>
  Claim C3, as the code has it. For a well-formed id and a partial draft whose supplied
  fields satisfy their constraints: when the id matches no document the answer is 404
  and the collection is unchanged; when it matches a document, the answer is 200 with
  that document in which exactly the supplied fields have the draft's values (strings
  trimmed) and \<^verbatim>\<open>updatedAt\<close> is the reading of the clock at the update, every other
  field and every other document being as before. \<^verbatim>\<open>updatedAt\<close> is therefore later than
  before whenever the clock reads later than the previous \<^verbatim>\<open>updatedAt\<close>.
\<close>

theorem updateExpense_partial:
  assumes "castObjectId s = Some i" and "supplied_fields_valid b"
  shows "(lookup i db = None \<longrightarrow>
            updateExpense now s b db =
              (Responded (Response 404 False (Message ''Expense not found'')), db)) \<and>
         (\<forall>e. lookup i db = Some e \<longrightarrow>
            (\<exists>e' pre post.
               updateExpense now s b db =
                 (Responded (Response 200 True (Data e')), pre @ e' # post) \<and>
               db = pre @ e # post \<and>
               e' = e\<lparr> title := (case b_title b of None \<Rightarrow> title e | Some t \<Rightarrow> trim t),
                        amount := (case b_amount b of None \<Rightarrow> amount e | Some a \<Rightarrow> a),
                        category := (case b_category b of None \<Rightarrow> category e | Some c \<Rightarrow> c),
                        date := (case b_date b of None \<Rightarrow> date e | Some d \<Rightarrow> d),
                        description :=
                          (case b_description b of None \<Rightarrow> description e | Some d \<Rightarrow> Some (trim d)),
                        updatedAt := now \<rparr> \<and>
               oid e' = oid e \<and> createdAt e' = createdAt e \<and> updatedAt e' = now \<and>
               (updatedAt e < now \<longrightarrow> updatedAt e < updatedAt e')))"
proof (intro conjI allI impI)
  note v = validate_update_valid [OF assms(2)]
  show "updateExpense now s b db =
      (Responded (Response 404 False (Message ''Expense not found'')), db)"
    if "lookup i db = None"
    using that assms(1) v by (simp add: updateExpense_def findByIdAndUpdate_def)
  fix e
  assume l: "lookup i db = Some e"
  let ?e' = "apply_update now (cast_update b) e"
  from replace_first_split [OF l, of ?e'] obtain pre post where
    p: "db = pre @ e # post" "replace_first i ?e' db = pre @ ?e' # post"
    by blast
  have u: "updateExpense now s b db = (Responded (Response 200 True (Data ?e')), pre @ ?e' # post)"
    using l assms(1) v p(2) by (simp add: updateExpense_def findByIdAndUpdate_def Let_def)
  have e': "?e' = e\<lparr> title := (case b_title b of None \<Rightarrow> title e | Some t \<Rightarrow> trim t),
                        amount := (case b_amount b of None \<Rightarrow> amount e | Some a \<Rightarrow> a),
                        category := (case b_category b of None \<Rightarrow> category e | Some c \<Rightarrow> c),
                        date := (case b_date b of None \<Rightarrow> date e | Some d \<Rightarrow> d),
                        description :=
                          (case b_description b of None \<Rightarrow> description e | Some d \<Rightarrow> Some (trim d)),
                        updatedAt := now \<rparr>"
    by (simp add: apply_update_def cast_update_def split: option.splits)
  have "oid ?e' = oid e" "createdAt ?e' = createdAt e" "updatedAt ?e' = now"
    by (simp_all add: apply_update_def)
  with u p(1) e' show "\<exists>e' pre post.
               updateExpense now s b db =
                 (Responded (Response 200 True (Data e')), pre @ e' # post) \<and>
               db = pre @ e # post \<and>
               e' = e\<lparr> title := (case b_title b of None \<Rightarrow> title e | Some t \<Rightarrow> trim t),
                        amount := (case b_amount b of None \<Rightarrow> amount e | Some a \<Rightarrow> a),
                        category := (case b_category b of None \<Rightarrow> category e | Some c \<Rightarrow> c),
                        date := (case b_date b of None \<Rightarrow> date e | Some d \<Rightarrow> d),
                        description :=
                          (case b_description b of None \<Rightarrow> description e | Some d \<Rightarrow> Some (trim d)),
                        updatedAt := now \<rparr> \<and>
               oid e' = oid e \<and> createdAt e' = createdAt e \<and> updatedAt e' = now \<and>
               (updatedAt e < now \<longrightarrow> updatedAt e < updatedAt e')"
    by (intro exI [of _ ?e'] exI [of _ pre] exI [of _ post]) simp
qed

lemmas update_eval =
  updateExpense_def findByIdAndUpdate_def castObjectId_def is_hex_def lower_hex_def
  validate_update_def cast_update_def supplied_def path_error_def List.map_filter_simps
  validate_title_def validate_amount_def validate_category_def validate_description_def
  lookup_def apply_update_def trim_def is_space_def lunch_def bus_def Let_def

theorem updateExpense_partial_witness:
  "castObjectId ''000000000000000000000001'' = Some ''000000000000000000000001'' \<and>
   supplied_fields_valid rename \<and>
   lookup ''000000000000000000000001'' [bus] = None \<and>
   updateExpense 1704067200001 ''000000000000000000000001'' rename [bus] =
     (Responded (Response 404 False (Message ''Expense not found'')), [bus]) \<and>
   lookup ''000000000000000000000001'' [bus, lunch] = Some lunch \<and>
   updateExpense 1704067200001 ''000000000000000000000001'' rename [bus, lunch] =
     (Responded (Response 200 True
        (Data (lunch\<lparr>title := ''Brunch'', updatedAt := 1704067200001\<rparr>))),
      [bus, lunch\<lparr>title := ''Brunch'', updatedAt := 1704067200001\<rparr>])"
proof -
  have c: "castObjectId ''000000000000000000000001'' = Some ''000000000000000000000001''"
    by (simp add: castObjectId_def is_hex_def lower_hex_def)
  have t: "trim ''Brunch'' = ''Brunch''"
    by (simp add: trim_def is_space_def)
  have v: "supplied_fields_valid rename"
    by (simp add: supplied_fields_valid_def rename_def t)
  have l1: "lookup ''000000000000000000000001'' [bus] = None"
    by (simp add: lookup_def bus_def)
  have l2: "lookup ''000000000000000000000001'' [bus, lunch] = Some lunch"
    by (simp add: lookup_def bus_def lunch_def)
  from updateExpense_partial [OF c v, of "[bus]" 1704067200001] l1
  have a: "updateExpense 1704067200001 ''000000000000000000000001'' rename [bus] =
     (Responded (Response 404 False (Message ''Expense not found'')), [bus])"
    by simp
  have b: "updateExpense 1704067200001 ''000000000000000000000001'' rename [bus, lunch] =
     (Responded (Response 200 True
        (Data (lunch\<lparr>title := ''Brunch'', updatedAt := 1704067200001\<rparr>))),
      [bus, lunch\<lparr>title := ''Brunch'', updatedAt := 1704067200001\<rparr>])"
    by (simp add: update_eval rename_def)
  from c v l1 l2 a b show ?thesis by simp
qed

text \<open>
  The claim as the specification states it fails in three places: an update at the very
  clock reading of the previous write leaves \<^verbatim>\<open>updatedAt\<close> where it was; an update with
  an invalid draft on an id that matches no document is answered 400, not 404, since the
  update validators run before the lookup; and a malformed id is not answered 404 but
  handed to the error middleware.
\<close>

theorem updateExpense_counterexample:
  "updateExpense 1704067200000 ''000000000000000000000001'' rename [lunch] =
     (Responded (Response 200 True (Data (lunch\<lparr>title := ''Brunch''\<rparr>))),
      [lunch\<lparr>title := ''Brunch''\<rparr>]) \<and>
   \<not> updatedAt lunch < updatedAt (lunch\<lparr>title := ''Brunch''\<rparr>) \<and>
   lookup ''000000000000000000000002'' [lunch] = None \<and>
   updateExpense 1704067200001 ''000000000000000000000002'' negative_amount [lunch] =
     (Responded (Response 400 False (Messages [''Amount must be a positive number''])), [lunch]) \<and>
   updateExpense 1704067200001 ''abc'' rename [lunch] = (Next (CastError ''_id'' ''abc''), [lunch])"
  by (simp add: update_eval rename_def negative_amount_def)

section \<open>Statistics\<close>

lemma keys_add_to_group: "fst ` set (add_to_group k v gs) = insert k (fst ` set gs)"
proof (induction gs)
  case Nil
  then show ?case by simp
next
  case (Cons g gs)
  obtain k' vs where g: "g = (k', vs)" by (cases g)
  show ?case
  proof (cases "k' = k")
    case True
    with g show ?thesis by simp
  next
    case False
    with g Cons.IH show ?thesis by (simp add: insert_commute)
  qed
qed

lemma distinct_add_to_group:
  "distinct (map fst gs) \<Longrightarrow> distinct (map fst (add_to_group k v gs))"
proof (induction gs)
  case Nil
  then show ?case by simp
next
  case (Cons g gs)
  obtain k' vs where g: "g = (k', vs)" by (cases g)
  show ?case
  proof (cases "k' = k")
    case True
    with g Cons.prems show ?thesis by simp
  next
    case False
    with g Cons show ?thesis by (simp add: keys_add_to_group)
  qed
qed

lemma map_of_add_to_group:
  "map_of (add_to_group k v gs) =
     (map_of gs)(k \<mapsto> (case map_of gs k of None \<Rightarrow> [v] | Some vs \<Rightarrow> vs @ [v]))"
  by (induction gs) (auto simp: fun_eq_iff)

lemma sums_add_to_group:
  "sum_list (map (\<lambda>g. sum_list (snd g)) (add_to_group k v gs)) =
     sum_list (map (\<lambda>g. sum_list (snd g)) gs) + v"
  by (induction gs) (auto simp: add.assoc add.commute add.left_commute)

lemma foldl_groups_keys:
  "fst ` set (foldl (\<lambda>gs e. add_to_group (key e) (amount e) gs) gs docs) =
     fst ` set gs \<union> key ` set docs"
  by (induction docs arbitrary: gs) (simp_all add: keys_add_to_group)

lemma foldl_groups_distinct:
  "distinct (map fst gs) \<Longrightarrow>
     distinct (map fst (foldl (\<lambda>gs e. add_to_group (key e) (amount e) gs) gs docs))"
  by (induction docs arbitrary: gs) (simp_all add: distinct_add_to_group)

lemma foldl_groups_sums:
  "sum_list (map (\<lambda>g. sum_list (snd g))
       (foldl (\<lambda>gs e. add_to_group (key e) (amount e) gs) gs docs)) =
     sum_list (map (\<lambda>g. sum_list (snd g)) gs) + sum_list (map amount docs)"
  by (induction docs arbitrary: gs) (simp_all add: sums_add_to_group add.assoc)

lemma foldl_groups_map_of:
  "map_of (foldl (\<lambda>gs e. add_to_group (key e) (amount e) gs) gs docs) k =
     (case map_of gs k of
        None \<Rightarrow> if k \<in> key ` set docs
                then Some (map amount (filter (\<lambda>e. key e = k) docs)) else None
      | Some vs \<Rightarrow> Some (vs @ map amount (filter (\<lambda>e. key e = k) docs)))"
proof (induction docs arbitrary: gs)
  case Nil
  then show ?case by (simp split: option.splits)
next
  case (Cons e docs)
  show ?case
  proof (cases "key e = k")
    case True
    then show ?thesis
      by (simp add: Cons.IH map_of_add_to_group split: option.splits)
  next
    case False
    then show ?thesis
      by (simp add: Cons.IH map_of_add_to_group split: option.splits)
  qed
qed

lemma group_amounts_keys: "fst ` set (group_amounts key docs) = key ` set docs"
  by (simp add: group_amounts_def foldl_groups_keys)

lemma group_amounts_distinct: "distinct (map fst (group_amounts key docs))"
  by (simp add: group_amounts_def foldl_groups_distinct)

lemma group_amounts_sums:
  "sum_list (map (\<lambda>g. sum_list (snd g)) (group_amounts key docs)) = sum_list (map amount docs)"
  by (simp add: group_amounts_def foldl_groups_sums)

lemma group_amounts_entry:
  "g \<in> set (group_amounts key docs) \<Longrightarrow>
     snd g = map amount (filter (\<lambda>e. key e = fst g) docs)"
proof -
  assume "g \<in> set (group_amounts key docs)"
  then have "(fst g, snd g) \<in> set (group_amounts key docs)"
    by simp
  then have "map_of (group_amounts key docs) (fst g) = Some (snd g)"
    using group_amounts_distinct [of key docs] by (simp only: map_of_eq_Some_iff)
  then show ?thesis
    by (simp add: group_amounts_def foldl_groups_map_of split: if_splits)
qed

lemma group_sum_keys: "fst ` set (group_sum acc key docs) = key ` set docs"
  by (simp add: group_sum_def image_image group_amounts_keys)

lemma group_sum_distinct: "distinct (map fst (group_sum acc key docs))"
  by (simp add: group_sum_def comp_def group_amounts_distinct)

lemma group_sum_entry:
  "(k, t) \<in> set (group_sum acc key docs) \<Longrightarrow>
     t = acc (map amount (filter (\<lambda>e. key e = k) docs))"
  by (auto simp: group_sum_def dest: group_amounts_entry)

lemma distinct_map_sort_by: "distinct (map f (sort_by k d xs)) = distinct (map f xs)"
proof -
  have "mset (map f (sort_by k d xs)) = mset (map f xs)"
    by (simp add: mset_sort_by)
  then show ?thesis
    by (rule mset_eq_imp_distinct_iff)
qed

lemma sum_list_sort_by: "sum_list (map f (sort_by k d xs)) = sum_list (map f xs)"
  for f :: "'a \<Rightarrow> rat"
proof -
  have "sum_mset (image_mset f (mset (sort_by k d xs))) = sum_mset (image_mset f (mset xs))"
    by (simp only: mset_sort_by)
  then show ?thesis
    by (simp add: sum_mset_sum_list flip: mset_map)
qed

lemma group_sums_add_up:
  "sum_list (map (\<lambda>g. sum_list (map amount (filter (\<lambda>e. key e = fst g) docs)))
       (sort_by k d (group_sum acc key docs))) = sum_list (map amount docs)"
proof -
  have "sum_list (map (\<lambda>g. sum_list (map amount (filter (\<lambda>e. key e = fst g) docs)))
       (group_sum acc key docs)) =
     sum_list (map (\<lambda>g. sum_list (map amount (filter (\<lambda>e. key e = fst g) docs)))
       (group_amounts key docs))"
    by (simp add: group_sum_def comp_def)
  also have "\<dots> = sum_list (map (\<lambda>g. sum_list (snd g)) (group_amounts key docs))"
    by (rule arg_cong [where f = sum_list], rule map_cong) (simp_all add: group_amounts_entry)
  finally show ?thesis
    by (simp add: sum_list_sort_by group_amounts_sums)
qed

text \<open>
  Claim C7, as the code has it. In the statistics response the pairs are in descending
  order of total; each category appears once, and exactly when some record has it; its
  total is the server's sum of the amounts of the records of that category, and the
  grand total is the server's sum of all amounts, or 0 on the empty collection. These
  are sums of doubles: whenever each of them is the arithmetic sum it stands for, the
  totals by category add up to the grand total.
\<close>

theorem totalByCategory_totals:
  "getExpenseStats acc year db = Responded (Response st ok (Statistics grand cats months)) \<Longrightarrow>
     cats = getTotalByCategory acc db \<and>
     grand = (if db = [] then Finite 0 else acc (map amount db)) \<and>
     sorted (rev (map (\<lambda>g. number_rank (snd g)) cats)) \<and>
     distinct (map fst cats) \<and>
     fst ` set cats = category ` set db \<and>
     (\<forall>(c, t) \<in> set cats. t = acc (map amount (filter (\<lambda>e. category e = c) db))) \<and>
     ((\<forall>(c, t) \<in> set cats.
          t = Finite (sum_list (map amount (filter (\<lambda>e. category e = c) db)))) \<and>
      grand = Finite (sum_list (map amount db)) \<longrightarrow>
        (\<exists>ts. map snd cats = map Finite ts \<and> grand = Finite (sum_list ts)))"
proof -
  assume a: "getExpenseStats acc year db =
    Responded (Response st ok (Statistics grand cats months))"
  then have c: "cats = getTotalByCategory acc db"
    by (simp add: getExpenseStats_def Let_def)
  from a have g: "grand = (if db = [] then Finite 0 else acc (map amount db))"
    by (auto simp: getExpenseStats_def Let_def aggregate_total_def)
  have o: "sorted (rev (map (\<lambda>g. number_rank (snd g)) (getTotalByCategory acc db)))"
    unfolding getTotalByCategory_def by (rule sorted_sort_by_desc) simp
  have d: "distinct (map fst (getTotalByCategory acc db))"
    by (simp add: getTotalByCategory_def distinct_map_sort_by group_sum_distinct)
  have k: "fst ` set (getTotalByCategory acc db) = category ` set db"
    by (simp add: getTotalByCategory_def set_sort_by group_sum_keys)
  have e: "\<forall>(c, t) \<in> set (getTotalByCategory acc db).
      t = acc (map amount (filter (\<lambda>e. category e = c) db))"
    by (auto simp: getTotalByCategory_def set_sort_by dest: group_sum_entry)
  have x: "\<exists>ts. map snd cats = map Finite ts \<and> grand = Finite (sum_list ts)"
    if h: "\<forall>(c, t) \<in> set cats.
          t = Finite (sum_list (map amount (filter (\<lambda>e. category e = c) db)))"
      and t: "grand = Finite (sum_list (map amount db))"
  proof -
    let ?ts = "map (\<lambda>g. sum_list (map amount (filter (\<lambda>e. category e = fst g) db))) cats"
    from h have "map snd cats = map Finite ?ts"
      by (auto simp: case_prod_beta)
    moreover have "sum_list ?ts = sum_list (map amount db)"
      unfolding c getTotalByCategory_def by (rule group_sums_add_up)
    ultimately show ?thesis
      using t by (intro exI [of _ ?ts]) simp
  qed
  from c g o d k e x show ?thesis
    by simp
qed

theorem totalByCategory_totals_witness:
  "getExpenseStats js_sum 2024 [bus, lunch, groceries] =
     Responded (Response 200 True
       (Statistics (Finite 175) [(''Food'', Finite 125), (''Transportation'', Finite 50)]
          [(1, Finite 100), (2, Finite 50)])) \<and>
   Finite 125 =
     Finite (sum_list (map amount (filter (\<lambda>e. category e = ''Food'') [bus, lunch, groceries]))) \<and>
   Finite 50 =
     Finite (sum_list (map amount
       (filter (\<lambda>e. category e = ''Transportation'') [bus, lunch, groceries]))) \<and>
   Finite 175 = Finite (sum_list (map amount [bus, lunch, groceries])) \<and>
   (\<exists>ts. map snd [(''Food'', Finite 125), (''Transportation'', Finite 50)] = map Finite ts \<and>
      Finite 175 = Finite (sum_list ts)) \<and>
   sorted (rev (map (\<lambda>g. number_rank (snd g))
      [(''Food'', Finite 125), (''Transportation'', Finite 50)]))"
proof -
  have a: "getExpenseStats js_sum 2024 [bus, lunch, groceries] =
     Responded (Response 200 True
       (Statistics (Finite 175) [(''Food'', Finite 125), (''Transportation'', Finite 50)]
          [(1, Finite 100), (2, Finite 50)]))"
    by code_simp
  have f: "Finite 125 =
     Finite (sum_list (map amount (filter (\<lambda>e. category e = ''Food'') [bus, lunch, groceries])))"
    by code_simp
  have r: "Finite 50 =
     Finite (sum_list (map amount
       (filter (\<lambda>e. category e = ''Transportation'') [bus, lunch, groceries])))"
    by code_simp
  have g: "Finite 175 = Finite (sum_list (map amount [bus, lunch, groceries]))"
    by code_simp
  from f r
  have h: "\<forall>(c, t) \<in> set [(''Food'', Finite 125), (''Transportation'', Finite 50)].
      t = Finite (sum_list (map amount (filter (\<lambda>e. category e = c) [bus, lunch, groceries])))"
    by simp
  note t = totalByCategory_totals [OF a]
  from t h g
  have x: "\<exists>ts. map snd [(''Food'', Finite 125), (''Transportation'', Finite 50)] = map Finite ts \<and>
      Finite 175 = Finite (sum_list ts)"
    by blast
  from t
  have o: "sorted (rev (map (\<lambda>g. number_rank (snd g))
      [(''Food'', Finite 125), (''Transportation'', Finite 50)]))"
    by blast
  from a f r g x o show ?thesis
    by (intro conjI)
qed

text \<open>
  The claim as the specification states it, the totals by category adding up to the
  grand total, fails on the three amounts \<^verbatim>\<open>0.1\<close> (Food), \<^verbatim>\<open>0.2\<close> (Transportation) and
  \<^verbatim>\<open>0.6\<close> (Food). Whether the server rounds at each addition or once at the end, the
  grand total is the double \<^verbatim>\<open>0.9\<close> and the totals are \<^verbatim>\<open>0.7\<close> and \<^verbatim>\<open>0.2\<close>; these two
  add up to \<^verbatim>\<open>0.8999999999999999\<close> as doubles, in either order, and as rationals to a
  number that is no double at all.
\<close>

theorem totalByCategory_counterexample:
  "getExpenseStats js_sum 2024 [coffee, ticket, snack] =
     Responded (Response 200 True
       (Statistics (Finite (8106479329266893 / 9007199254740992))
          [(''Food'', Finite (3152519739159347 / 4503599627370496)),
           (''Transportation'', Finite (3602879701896397 / 18014398509481984))]
          [(1, Finite (8106479329266893 / 9007199254740992))])) \<and>
   getExpenseStats rounded_sum 2024 [coffee, ticket, snack] =
     Responded (Response 200 True
       (Statistics (Finite (8106479329266893 / 9007199254740992))
          [(''Food'', Finite (3152519739159347 / 4503599627370496)),
           (''Transportation'', Finite (3602879701896397 / 18014398509481984))]
          [(1, Finite (8106479329266893 / 9007199254740992))])) \<and>
   js_add (Finite (3152519739159347 / 4503599627370496)) (3602879701896397 / 18014398509481984)
     = Finite (2026619832316723 / 2251799813685248) \<and>
   js_add (Finite (3602879701896397 / 18014398509481984)) (3152519739159347 / 4503599627370496)
     = Finite (2026619832316723 / 2251799813685248) \<and>
   (2026619832316723 / 2251799813685248 :: rat) \<noteq> 8106479329266893 / 9007199254740992 \<and>
   (3152519739159347 / 4503599627370496 + 3602879701896397 / 18014398509481984 :: rat)
     \<noteq> 8106479329266893 / 9007199254740992"
  by code_simp

text \<open>
  Claim C2, at the input where the code departs from it. The upper bound of the
  \<^verbatim>\<open>$match\<close> is midnight UTC at the start of December 31, so a record dated at noon of
  December 31 of 2024 is left out of the monthly totals of 2024, while the same record
  dated at that midnight is counted under month 12.
\<close>

theorem getMonthlyExpenses_december_31:
  "date_only 2024 1 1 = 1704067200000 \<and>
   date_only 2024 12 31 = 1735603200000 \<and>
   date groceries = 1735603200000 + 12 * 3600000 \<and>
   month_of (date groceries) = 12 \<and>
   getMonthlyExpenses js_sum 2024 [groceries] = [] \<and>
   getMonthlyExpenses js_sum 2024 [groceries\<lparr>date := 1735603200000\<rparr>] = [(12, Finite 25)]"
  by code_simp

end
